theory Spec2Isabelle
  imports Complex_Main "HOL-Library.AList" "HOL-Library.Char_ord" "HOL-Library.List_Lexorder"
    "HOL-Library.Multiset"
begin

section \<open>Values, errors and the library the code calls\<close>

text \<open>
  A row value is a Go \<^verbatim>\<open>interface{}\<close>.  \<^verbatim>\<open>setValueForResult\<close> switches over
  \<^verbatim>\<open>string\<close>, \<^verbatim>\<open>int\<close> and \<^verbatim>\<open>float64\<close>; every other dynamic type, the nil
  interface included, reaches its \<^verbatim>\<open>default\<close> branch.  The type \<open>'f\<close> stands for
  \<^verbatim>\<open>float64\<close>.  A Go \<^verbatim>\<open>int\<close> is only converted, never computed with, so it is
  an \<open>int\<close> here.
\<close>

datatype 'f val = VString string | VInt int | VFloat 'f | VNil | VOther nat

text \<open>
  The errors \<^verbatim>\<open>SetMetrics\<close> returns, named as in the specification:
  \<^item> \<open>AmbiguousSingleColumnResult\<close>: "There is more than one row in the query result - with a single column";
  \<^item> \<open>MissingDataField\<close>: "Data field not specified for multi-column query";
  \<^item> \<open>DataFieldNotFound\<close>: "Data field not found in result set";
  \<^item> \<open>MissingDataMetricColumn\<close>: "Data metric not specified for multi-column query";
  \<^item> \<open>InvalidNumericText\<close>: the error of \<^verbatim>\<open>strconv.ParseFloat\<close>;
  \<^item> \<open>UnsupportedValueType\<close>: "Unhandled type ...".

  \<open>MustRegisterPanic\<close> is not a returned error: it is the panic of
  \<^verbatim>\<open>prometheus.MustRegister\<close> when the registry rejects the gauge.
\<close>

datatype error =
    AmbiguousSingleColumnResult
  | MissingDataField
  | DataFieldNotFound
  | MissingDataMetricColumn
  | InvalidNumericText
  | UnsupportedValueType
  | MustRegisterPanic

text \<open>
  A gauge object of the metrics library.  \<open>gid\<close> is the identity of the object (its
  allocation number): the registry holds gauge objects, and \<^verbatim>\<open>r.Result\<close> refers to
  them.  \<open>ConstLabels\<close> is a \<^verbatim>\<open>map[string]string\<close>, kept as an association list.
\<close>

record 'f Gauge =
  gid :: nat
  gName :: string
  Help :: string
  ConstLabels :: "(string \<times> string) list"
  Val :: 'f

text \<open>
  The library functions the code calls are parameters of the model; nothing is assumed
  about them.
  \<^item> \<open>ToLower\<close>: \<^verbatim>\<open>strings.ToLower\<close>;
  \<^item> \<open>fmt_v\<close>: \<^verbatim>\<open>fmt.Sprintf("%v", v)\<close> for a value that is not a string;
  \<^item> \<open>ParseFloat\<close>: \<^verbatim>\<open>strconv.ParseFloat(t, 64)\<close>, \<open>None\<close> when it returns an error;
  \<^item> \<open>float64\<close>: the conversion \<^verbatim>\<open>float64(t)\<close> of an \<^verbatim>\<open>int\<close>;
  \<^item> \<open>json_key\<close>, \<open>json_val\<close>: how \<^verbatim>\<open>json.Marshal\<close> writes an object key and a
    value, \<open>None\<close> when the value cannot be encoded;
  \<^item> \<open>runes\<close>: the split of a string into its UTF-8 sequences, which is what a
    regular expression matches character by character;
  \<^item> \<open>MustRegister_ok\<close>: whether the default registry, holding the gauges with the
    given identities, accepts the gauge (\<^verbatim>\<open>MustRegister\<close> panics when it does not).
\<close>

record 'f golib =
  ToLower :: "string \<Rightarrow> string"
  fmt_v :: "'f val \<Rightarrow> string"
  ParseFloat :: "string \<Rightarrow> 'f option"
  float64 :: "int \<Rightarrow> 'f"
  json_key :: "string \<Rightarrow> string"
  json_val :: "'f val \<Rightarrow> string option"
  runes :: "string \<Rightarrow> string list"
  MustRegister_ok :: "nat list \<Rightarrow> 'f Gauge \<Rightarrow> bool"

text \<open>\<^verbatim>\<open>fmt.Sprintf("%v", v)\<close>: a string operand is printed as it is.\<close>

definition Sprintf_v :: "'f golib \<Rightarrow> 'f val \<Rightarrow> string" where
  "Sprintf_v lib v = (case v of VString s \<Rightarrow> s | _ \<Rightarrow> fmt_v lib v)"

section \<open>The query and its result set\<close>

text \<open>
  Modelled from the spec: the type \<^verbatim>\<open>Query\<close> is not declared in \<^verbatim>\<open>set.go\<close>.  Its
  fields are those \<^verbatim>\<open>set.go\<close> reads, with the types its uses of them need and the
  meaning section 3 of the specification gives them.  \<^verbatim>\<open>DataMetric\<close> is the one field
  that lines 86 and 103 both read: line 103 compares it with a lower-cased column name,
  so it is a string, the name of the column that overrides the metric's name, empty when
  the query names no such column.
\<close>

record Query =
  Name :: string
  MultiDimensional :: bool
  DataField :: string
  DataLabels :: "string list"
  DataLabelName :: string
  DataMetric :: string

text \<open>
  \<^verbatim>\<open>QueryResult\<close> with the two pieces of process-wide state its methods change:
  \<open>registry\<close>, the identities of the gauges registered with the default registry, and
  \<open>fresh\<close>, the identity the next \<^verbatim>\<open>NewGauge\<close> allocates.  \<open>Result\<close> is the Go map
  from facet key to gauge, as an association list.
\<close>

record 'f state =
  Query :: Query
  Result :: "(string \<times> 'f Gauge) list"
  registry :: "nat list"
  fresh :: nat

text \<open>
  Lines 21-28: an empty result set for the query; the registry and the next identity are
  what the process has at that time.
\<close>

definition NewQueryResult :: "Query \<Rightarrow> nat list \<Rightarrow> nat \<Rightarrow> 'f state" where
  "NewQueryResult q reg n = \<lparr>Query = q, Result = [], registry = reg, fresh = n\<rparr>"

text \<open>
  A row and a facet mapping are Go maps.  The order of the list is the order in which
  a \<^verbatim>\<open>range\<close> loop visits the map, which the Go runtime chooses anew for every loop;
  the keys of a well-formed row or facet mapping are distinct.
\<close>

type_synonym 'f row = "(string \<times> 'f val) list"

section \<open>The facet key\<close>

text \<open>
  \<^verbatim>\<open>json.Marshal\<close> of a \<^verbatim>\<open>map[string]interface{}\<close>: an object whose members are
  sorted by key (byte-wise string order), and an error as soon as one value cannot be
  encoded.
\<close>

fun join_commas :: "string list \<Rightarrow> string" where
  "join_commas [] = []"
| "join_commas [x] = x"
| "join_commas (x # y # ys) = x @ '','' @ join_commas (y # ys)"

definition json_member :: "'f golib \<Rightarrow> string \<times> 'f val \<Rightarrow> string option" where
  "json_member lib kv =
     (case json_val lib (snd kv) of
        None \<Rightarrow> None
      | Some j \<Rightarrow> Some (json_key lib (fst kv) @ '':'' @ j))"

definition Marshal :: "'f golib \<Rightarrow> (string \<times> 'f val) list \<Rightarrow> string option" where
  "Marshal lib facets =
     (case those (map (json_member lib) (sort_key fst facets)) of
        None \<Rightarrow> None
      | Some ms \<Rightarrow> Some (''{'' @ join_commas ms @ ''}''))"

text \<open>
  Lines 33-34: the error of \<^verbatim>\<open>json.Marshal\<close> is dropped, and the string of the nil
  slice it returns with an error is empty.
\<close>

definition resultKey :: "'f golib \<Rightarrow> (string \<times> 'f val) list \<Rightarrow> string" where
  "resultKey lib facets = (case Marshal lib facets of None \<Rightarrow> [] | Some j \<Rightarrow> j)"

section \<open>registerMetric and setValueForResult\<close>

text \<open>Lines 36-38: one constant label per facet, its value printed and lower-cased.\<close>

definition make_labels :: "'f golib \<Rightarrow> (string \<times> 'f val) list \<Rightarrow> (string \<times> string) list" where
  "make_labels lib facets =
     fold (\<lambda>kv labels. AList.update (fst kv) (ToLower lib (Sprintf_v lib (snd kv))) labels)
       facets []"

text \<open>
  Lines 30-52.  The gauge is stored in \<^verbatim>\<open>r.Result\<close> (line 45) before
  \<^verbatim>\<open>MustRegister\<close> (line 50) can panic.  A new gauge holds the value zero.
\<close>

definition NewGauge :: "'f golib \<Rightarrow> nat \<Rightarrow> string \<Rightarrow> (string \<times> string) list \<Rightarrow> 'f Gauge" where
  "NewGauge lib i name labels =
     \<lparr>gid = i, gName = name, Help = ''Result of an SQL query'', ConstLabels = labels,
      Val = float64 lib 0\<rparr>"

definition registerMetric ::
  "'f golib \<Rightarrow> 'f state \<Rightarrow> (string \<times> 'f val) list \<Rightarrow> 'f state \<times> (error + string)" where
  "registerMetric lib st facets =
     (let labels = make_labels lib facets;
          key = resultKey lib facets
      in if map_of (Result st) key \<noteq> None then (st, Inr key)
         else
           let g = NewGauge lib (fresh st) (''query_result_'' @ Name (Query st)) labels;
               st1 = st\<lparr>Result := AList.update key g (Result st), fresh := Suc (fresh st)\<rparr>
           in if MustRegister_ok lib (registry st1) g
              then (st1\<lparr>registry := gid g # registry st1\<rparr>, Inr key)
              else (st1, Inl MustRegisterPanic))"

text \<open>Lines 58-71: the number the gauge is set to, or the error.\<close>

definition coerce :: "'f golib \<Rightarrow> 'f val \<Rightarrow> error + 'f" where
  "coerce lib v =
     (case v of
        VString t \<Rightarrow> (case ParseFloat lib t of None \<Rightarrow> Inl InvalidNumericText | Some f \<Rightarrow> Inr f)
      | VInt t \<Rightarrow> Inr (float64 lib t)
      | VFloat t \<Rightarrow> Inr t
      | _ \<Rightarrow> Inl UnsupportedValueType)"

text \<open>
  Lines 57-73, called on the gauge \<^verbatim>\<open>r.Result[key]\<close>: \<^verbatim>\<open>r.Set(f)\<close> overwrites the
  value of that gauge.
\<close>

definition setValueForResult ::
  "'f golib \<Rightarrow> 'f state \<Rightarrow> string \<Rightarrow> 'f val \<Rightarrow> 'f state \<times> error option" where
  "setValueForResult lib st key v =
     (case coerce lib v of
        Inl e \<Rightarrow> (st, Some e)
      | Inr f \<Rightarrow> (st\<lparr>Result := AList.map_entry key (\<lambda>g. g\<lparr>Val := f\<rparr>) (Result st)\<rparr>, None))"

section \<open>SetMetrics\<close>

text \<open>The variables of one row: \<^verbatim>\<open>facet\<close>, \<^verbatim>\<open>dataVal\<close>, \<^verbatim>\<open>dataFound\<close>.\<close>

record 'f locals =
  facet :: "(string \<times> 'f val) list"
  dataVal :: "'f val"
  dataFound :: bool

definition row_start :: "'f locals" where
  "row_start = \<lparr>facet = [], dataVal = VNil, dataFound = False\<rparr>"

subsection \<open>The single-dimensional branch (lines 124-152)\<close>

text \<open>Lines 134-139, for one column of a row of \<open>n\<close> columns.\<close>

definition sd_col :: "'f golib \<Rightarrow> Query \<Rightarrow> nat \<Rightarrow> string \<times> 'f val \<Rightarrow> 'f locals \<Rightarrow> 'f locals" where
  "sd_col lib q n kv l =
     (if n > 1 \<and> ToLower lib (fst kv) \<noteq> DataField q
      then l\<lparr>facet := AList.update (ToLower lib (Sprintf_v lib (VString (fst kv)))) (snd kv) (facet l)\<rparr>
      else l\<lparr>dataVal := snd kv, dataFound := True\<rparr>)"

text \<open>Lines 146-151, shared by both branches: register, set the value, return the key.\<close>

definition register_and_set ::
  "'f golib \<Rightarrow> 'f state \<Rightarrow> (string \<times> 'f val) list \<Rightarrow> 'f val \<Rightarrow> 'f state \<times> (error + string)" where
  "register_and_set lib st fc dv =
     (case registerMetric lib st fc of
        (st1, Inl e) \<Rightarrow> (st1, Inl e)
      | (st1, Inr key) \<Rightarrow>
          (case setValueForResult lib st1 key dv of
             (st2, Some e) \<Rightarrow> (st2, Inl e)
           | (st2, None) \<Rightarrow> (st2, Inr key)))"

definition sd_row :: "'f golib \<Rightarrow> 'f state \<Rightarrow> 'f row \<Rightarrow> 'f state \<times> (error + string)" where
  "sd_row lib st row =
     (if length row > 1 \<and> DataField (Query st) = [] then (st, Inl MissingDataField)
      else
        let l = fold (sd_col lib (Query st) (length row)) row row_start
        in if \<not> dataFound l then (st, Inl DataFieldNotFound)
           else register_and_set lib st (facet l) (dataVal l))"

fun sd_rows ::
  "'f golib \<Rightarrow> 'f state \<Rightarrow> (string \<times> bool) list \<Rightarrow> 'f row list
     \<Rightarrow> 'f state \<times> (error + (string \<times> bool) list)" where
  "sd_rows lib st touched [] = (st, Inr touched)"
| "sd_rows lib st touched (row # rows) =
     (case sd_row lib st row of
        (st1, Inl e) \<Rightarrow> (st1, Inl e)
      | (st1, Inr key) \<Rightarrow> sd_rows lib st1 (AList.update key True touched) rows)"

subsection \<open>The multi-dimensional branch (lines 83-122)\<close>

text \<open>
  This branch does not compile as it stands; it is read as follows.
  \<^item> Line 94 lacks \<^verbatim>\<open>range\<close>: the loop visits \<^verbatim>\<open>r.Query.DataLabels\<close> in order.
  \<^item> \<^verbatim>\<open>dataVal\<close> and \<^verbatim>\<open>dataFound\<close> are not declared: they are the row's variables,
    declared as at lines 126-129 of the other branch, so \<^verbatim>\<open>dataVal\<close> is nil until a
    data column has been seen.
  \<^item> Lines 105-106 pass the value \<^verbatim>\<open>v\<close> where a string is needed: it is the string
    \<^verbatim>\<open>v\<close> holds, and its \<^verbatim>\<open>%v\<close> print otherwise.
  \<^item> Line 86 uses the string \<^verbatim>\<open>r.Query.DataMetric\<close> as a condition.  It is read as
    written, without the comparison with \<^verbatim>\<open>""\<close> that its counterpart at line 130
    has: the condition is true when the string is set, that is, not empty.
\<close>

text \<open>Lines 94-99.\<close>

definition md_labels ::
  "'f golib \<Rightarrow> Query \<Rightarrow> string \<times> 'f val \<Rightarrow> (string \<times> 'f val) list
     \<Rightarrow> (string \<times> 'f val) list \<times> bool" where
  "md_labels lib q kv fc =
     fold (\<lambda>label (fc', isLabel).
             if ToLower lib (fst kv) = ToLower lib label
             then (AList.update (ToLower lib (Sprintf_v lib (VString label))) (snd kv) fc', True)
             else (fc', isLabel))
       (DataLabels q) (fc, False)"

text \<open>
  The two regular expressions of lines 12-13 under \<^verbatim>\<open>ReplaceAllString\<close>:
  \<^verbatim>\<open>[%()]\<close> replaced by the empty string, and \<^verbatim>\<open>[^a-zA-Z0-9_]\<close> replaced by an
  underscore (every UTF-8 sequence that is not one of the 63 characters).
\<close>

definition name_chars :: "char list" where
  "name_chars = ''abcdefghijklmnopqrstuvwxyzABCDEFGHIJKLMNOPQRSTUVWXYZ0123456789_''"

definition ignoreNameCharRE_strip :: "string \<Rightarrow> string" where
  "ignoreNameCharRE_strip s = filter (\<lambda>c. c \<notin> set ''%()'') s"

definition invalidNameCharRE_replace :: "'f golib \<Rightarrow> string \<Rightarrow> string" where
  "invalidNameCharRE_replace lib s =
     concat (map (\<lambda>r. if length r = 1 \<and> hd r \<in> set name_chars then r else ''_'') (runes lib s))"

text \<open>
  \<^verbatim>\<open>strings.TrimSpace\<close>.  Its argument here is built from the 63 characters above, so only
  the ASCII white space matters.
\<close>

definition is_space :: "char \<Rightarrow> bool" where
  "is_space c = (c \<in> set [CHR '' '', CHR 0x09, CHR 0x0A, CHR 0x0B, CHR 0x0C, CHR 0x0D])"

definition TrimSpace :: "string \<Rightarrow> string" where
  "TrimSpace s = rev (dropWhile is_space (rev (dropWhile is_space s)))"

text \<open>Lines 105-106: two assignments to \<^verbatim>\<open>r.Query.Name\<close>, both computed from \<^verbatim>\<open>v\<close>.\<close>

definition override_name :: "'f golib \<Rightarrow> 'f val \<Rightarrow> Query \<Rightarrow> Query" where
  "override_name lib v q =
     (let q1 = q\<lparr>Name := ignoreNameCharRE_strip (Sprintf_v lib v)\<rparr>
      in q1\<lparr>Name := TrimSpace (invalidNameCharRE_replace lib (Sprintf_v lib v))\<rparr>)"

text \<open>
  Lines 91-112: what one column does to the query (only \<^verbatim>\<open>r.Query.Name\<close> can change)
  and to the row's variables.
\<close>

definition md_col ::
  "'f golib \<Rightarrow> string \<times> 'f val \<Rightarrow> Query \<times> 'f locals \<Rightarrow> Query \<times> 'f locals" where
  "md_col lib kv ql =
     (let q = fst ql; l = snd ql;
          (fc, isLabel) = md_labels lib q kv (facet l)
      in if \<not> isLabel
         then (if ToLower lib (fst kv) = DataMetric q
               then (override_name lib (snd kv) q, l\<lparr>facet := fc\<rparr>)
               else (q, l\<lparr>facet := AList.update (DataLabelName q) (VString (fst kv)) fc,
                           dataVal := snd kv, dataFound := True\<rparr>))
         else (q, l\<lparr>facet := fc\<rparr>))"

text \<open>
  Lines 90-121: the loop over the columns of a row.  Every column, whatever its kind,
  ends with the registration and the \<^verbatim>\<open>Set\<close> of lines 114-119.
\<close>

fun md_cols ::
  "'f golib \<Rightarrow> 'f state \<Rightarrow> 'f locals \<Rightarrow> (string \<times> bool) list \<Rightarrow> 'f row
     \<Rightarrow> 'f state \<times> (error + (string \<times> bool) list)" where
  "md_cols lib st l touched [] = (st, Inr touched)"
| "md_cols lib st l touched (kv # cols) =
     (case md_col lib kv (Query st, l) of
        (q1, l1) \<Rightarrow>
          (case register_and_set lib (st\<lparr>Query := q1\<rparr>) (facet l1) (dataVal l1) of
             (st2, Inl e) \<Rightarrow> (st2, Inl e)
           | (st2, Inr key) \<Rightarrow> md_cols lib st2 l1 (AList.update key True touched) cols))"

text \<open>Lines 83-122: the loop over the rows.\<close>

fun md_rows ::
  "'f golib \<Rightarrow> 'f state \<Rightarrow> (string \<times> bool) list \<Rightarrow> 'f row list
     \<Rightarrow> 'f state \<times> (error + (string \<times> bool) list)" where
  "md_rows lib st touched [] = (st, Inr touched)"
| "md_rows lib st touched (row # rows) =
     (if length row > 1 \<and> DataMetric (Query st) \<noteq> [] then (st, Inl MissingDataMetricColumn)
      else
        (case md_cols lib st row_start touched row of
           (st1, Inl e) \<Rightarrow> (st1, Inl e)
         | (st1, Inr touched1) \<Rightarrow> md_rows lib st1 touched1 rows))"

subsection \<open>SetMetrics (lines 75-156)\<close>

text \<open>Lines 81-155, after the check of lines 77-79.\<close>

definition process_rows ::
  "'f golib \<Rightarrow> 'f state \<Rightarrow> 'f row list \<Rightarrow> 'f state \<times> (error + (string \<times> bool) list)" where
  "process_rows lib st recs =
     (if MultiDimensional (Query st) then md_rows lib st [] recs else sd_rows lib st [] recs)"

definition SetMetrics ::
  "'f golib \<Rightarrow> 'f state \<Rightarrow> 'f row list \<Rightarrow> 'f state \<times> (error + (string \<times> bool) list)" where
  "SetMetrics lib st recs =
     (if length recs > 1 \<and> length (recs ! 0) = 1 then (st, Inl AmbiguousSingleColumnResult)
      else process_rows lib st recs)"

section \<open>RemoveMissingMetrics (lines 158-167)\<close>

text \<open>
  The body of the loop for one entry of \<^verbatim>\<open>r.Result\<close>: \<^verbatim>\<open>Unregister\<close> takes the gauge
  out of the registry, \<^verbatim>\<open>delete\<close> takes the key out of the map.
\<close>

definition reap_step :: "(string \<times> bool) list \<Rightarrow> string \<times> 'f Gauge \<Rightarrow> 'f state \<Rightarrow> 'f state" where
  "reap_step facetsWithResult km st =
     (if map_of facetsWithResult (fst km) \<noteq> None then st
      else st\<lparr>registry := removeAll (gid (snd km)) (registry st),
              Result := AList.delete (fst km) (Result st)\<rparr>)"

definition RemoveMissingMetrics :: "'f state \<Rightarrow> (string \<times> bool) list \<Rightarrow> 'f state" where
  "RemoveMissingMetrics st facetsWithResult = fold (reap_step facetsWithResult) (Result st) st"

section \<open>Notions the properties are stated with\<close>

text \<open>
  \<open>same_gauge g g'\<close>: the same gauge object with the same name, help and labels; only
  the value may differ.
\<close>

definition same_gauge :: "'f Gauge \<Rightarrow> 'f Gauge \<Rightarrow> bool" where
  "same_gauge g g' \<longleftrightarrow>
     gid g' = gid g \<and> gName g' = gName g \<and> Help g' = Help g \<and> ConstLabels g' = ConstLabels g"

text \<open>
  \<open>keeps st st'\<close>: every series of the result set of \<open>st\<close> is still in the result set
  of \<open>st'\<close> under its key, and every gauge registered in \<open>st\<close> is registered in \<open>st'\<close>.
\<close>

definition keeps :: "'f state \<Rightarrow> 'f state \<Rightarrow> bool" where
  "keeps st st' \<longleftrightarrow>
     (\<forall>key g. map_of (Result st) key = Some g \<longrightarrow>
        (\<exists>g'. map_of (Result st') key = Some g' \<and> same_gauge g g')) \<and>
     set (registry st) \<subseteq> set (registry st')"

text \<open>
  The result set is a Go map, so its keys are distinct; its gauges are distinct objects,
  allocated before the next fresh identity.
\<close>

definition wf :: "'f state \<Rightarrow> bool" where
  "wf st \<longleftrightarrow>
     distinct (map fst (Result st)) \<and>
     distinct (map (\<lambda>km. gid (snd km)) (Result st)) \<and>
     list_all (\<lambda>km. gid (snd km) < fresh st) (Result st)"

text \<open>The value of the series under a key, and the series of a state with their values.\<close>

definition val_at :: "'f state \<Rightarrow> string \<Rightarrow> 'f option" where
  "val_at st k = map_option Val (map_of (Result st) k)"

definition series :: "'f state \<Rightarrow> (string \<times> 'f) list" where
  "series st = map (\<lambda>km. (fst km, Val (snd km))) (Result st)"

text \<open>
  \<open>same_shape u u'\<close>: the same registry, the same keys in the same order with the same
  gauges; only values may differ.
\<close>

definition same_shape :: "'f state \<Rightarrow> 'f state \<Rightarrow> bool" where
  "same_shape u u' \<longleftrightarrow>
     registry u' = registry u \<and> fresh u' = fresh u \<and>
     list_all2 (\<lambda>a b. fst b = fst a \<and> same_gauge (snd a) (snd b)) (Result u) (Result u')"

text \<open>
  Two runs of the same rows, one from \<open>s\<close> to \<open>s1\<close> and one from \<open>u\<close> to \<open>u1\<close>: under
  every key both runs end with the same value, or neither run has changed the value.
\<close>

definition vrel :: "'f state \<Rightarrow> 'f state \<Rightarrow> 'f state \<Rightarrow> 'f state \<Rightarrow> bool" where
  "vrel s s1 u u1 \<longleftrightarrow>
     (\<forall>k. val_at u1 k = val_at s1 k \<or> (val_at u1 k = val_at u k \<and> val_at s1 k = val_at s k))"

text \<open>
  The sanitiser as the specification words it, to compare with lines 105-106: a first
  pass strips the characters outside \<^verbatim>\<open>[A-Za-z0-9_]\<close>, a second pass, on the output of
  the first, replaces the characters still invalid by an underscore, and the result is
  trimmed.
\<close>

definition strip_invalid :: "'f golib \<Rightarrow> string \<Rightarrow> string" where
  "strip_invalid lib s =
     concat (filter (\<lambda>r. length r = 1 \<and> hd r \<in> set name_chars) (runes lib s))"

definition spec_sanitize :: "'f golib \<Rightarrow> string \<Rightarrow> string" where
  "spec_sanitize lib s = TrimSpace (invalidNameCharRE_replace lib (strip_invalid lib s))"

section \<open>A library instance for the closed examples\<close>

text \<open>
  The closed examples below run the model with this instance of the library.  It agrees
  with the Go library on what the examples feed it: ASCII strings without characters that
  JSON escapes, integers below \<open>2^53\<close> (which \<^verbatim>\<open>float64\<close> holds exactly), and texts
  made of decimal digits.  The examples never print a float or a value of another type
  (\<open>''?''\<close> stands there).  Its registry accepts every gauge, as the default registry
  does for the gauges the examples register with it: valid names, one set of label names
  per metric name, no two gauges with the same name and labels.
\<close>

definition ascii_lower :: "char \<Rightarrow> char" where
  "ascii_lower c =
     (case map_of (zip ''ABCDEFGHIJKLMNOPQRSTUVWXYZ'' ''abcdefghijklmnopqrstuvwxyz'') c of
        None \<Rightarrow> c
      | Some d \<Rightarrow> d)"

definition quote :: "string \<Rightarrow> string" where
  "quote s = CHR 0x22 # s @ [CHR 0x22]"

fun dec_nat :: "nat \<Rightarrow> string" where
  "dec_nat n =
     (if n < 10 then [''0123456789'' ! n]
      else dec_nat (n div 10) @ [''0123456789'' ! (n mod 10)])"

definition dec_int :: "int \<Rightarrow> string" where
  "dec_int i = (if i < 0 then CHR ''-'' # dec_nat (nat (- i)) else dec_nat (nat i))"

definition digit_val :: "char \<Rightarrow> nat option" where
  "digit_val c = map_of (zip ''0123456789'' [0 ..< 10]) c"

definition parse_digits :: "string \<Rightarrow> nat option" where
  "parse_digits s =
     (if s = [] \<or> (\<exists>c \<in> set s. digit_val c = None) then None
      else Some (fold (\<lambda>c n. 10 * n + the (digit_val c)) s 0))"

definition ascii_lib :: "real golib" where
  "ascii_lib =
     \<lparr>ToLower = map ascii_lower,
      fmt_v = (\<lambda>v. case v of VInt i \<Rightarrow> dec_int i | VNil \<Rightarrow> ''<nil>'' | _ \<Rightarrow> ''?''),
      ParseFloat = (\<lambda>s. map_option real (parse_digits s)),
      float64 = real_of_int,
      json_key = quote,
      json_val = (\<lambda>v. case v of VString s \<Rightarrow> Some (quote s) | VInt i \<Rightarrow> Some (dec_int i)
                          | VNil \<Rightarrow> Some ''null'' | _ \<Rightarrow> Some ''?''),
      runes = map (\<lambda>c. [c]),
      MustRegister_ok = (\<lambda>reg g. True)\<rparr>"

text \<open>A single-dimensional query whose data column is \<open>value\<close>, and its fresh result set.\<close>

definition sd_query :: Query where
  "sd_query =
     \<lparr>Name = ''q'', MultiDimensional = False, DataField = ''value'', DataLabels = [],
      DataLabelName = [], DataMetric = []\<rparr>"

definition sd_state :: "real state" where
  "sd_state = NewQueryResult sd_query [] 0"

text \<open>
  The multi-dimensional query of the specification's example: the label column
  \<open>region\<close> and the synthetic label \<open>metric\<close>; \<^verbatim>\<open>DataMetric\<close> is not set, as in the
  example, so the condition of line 86 is false.
\<close>

definition md_query :: Query where
  "md_query =
     \<lparr>Name = ''q'', MultiDimensional = True, DataField = [], DataLabels = [''region''],
      DataLabelName = ''metric'', DataMetric = []\<rparr>"

definition md_state :: "real state" where
  "md_state = NewQueryResult md_query [] 0"

text \<open>A result set with two registered series, for the examples of reaping.\<close>

definition two_series :: "real state" where
  "two_series =
     \<lparr>Query = sd_query,
      Result = [(''{\"host\":\"a\"}'', NewGauge ascii_lib 0 ''query_result_q'' [(''host'', ''a'')]),
                (''{\"host\":\"b\"}'', NewGauge ascii_lib 1 ''query_result_q'' [(''host'', ''b'')])],
      registry = [1, 0], fresh = 2\<rparr>"

text \<open>The same library with the registry's answer left open.\<close>

definition ascii_lib_with :: "(nat list \<Rightarrow> real Gauge \<Rightarrow> bool) \<Rightarrow> real golib" where
  "ascii_lib_with ok = ascii_lib\<lparr>MustRegister_ok := ok\<rparr>"

text \<open>The columns of the examples.\<close>

definition region_eu :: "string \<times> real val" where
  "region_eu = (''region'', VString ''eu'')"

definition cpu_10 :: "string \<times> real val" where
  "cpu_10 = (''cpu'', VInt 10)"

definition mem_20 :: "string \<times> real val" where
  "mem_20 = (''mem'', VInt 20)"

definition name_a_pct_b :: "string \<times> real val" where
  "name_a_pct_b = (''name'', VString ''a%b'')"

definition host_a :: "string \<times> real val" where
  "host_a = (''host'', VString ''a'')"

definition host_b :: "string \<times> real val" where
  "host_b = (''host'', VString ''b'')"

definition host_upper_A :: "string \<times> real val" where
  "host_upper_A = (''host'', VString ''A'')"


definition value_1 :: "string \<times> real val" where
  "value_1 = (''value'', VInt 1)"

definition value_nil :: "string \<times> real val" where
  "value_nil = (''value'', VNil)"

text \<open>
  States the examples reach: after the row \<open>[host_a, value_1]\<close>; after the batch whose
  second row \<open>[host_b, value_nil]\<close> fails; after the row \<open>[Host_a, host_b, value_1]\<close>
  visited in this order; and the fresh result set of the multi-dimensional query with
  \<^verbatim>\<open>DataMetric\<close> set to the column \<open>name\<close>, so that the condition of line 86 is true.
\<close>

definition one_series :: "real state" where
  "one_series =
     \<lparr>Query = sd_query,
      Result = [(''{\"host\":\"a\"}'',
                 (NewGauge ascii_lib 0 ''query_result_q'' [(''host'', ''a'')])\<lparr>Val := 1\<rparr>)],
      registry = [0], fresh = 1\<rparr>"

definition failed_state :: "real state" where
  "failed_state =
     \<lparr>Query = sd_query,
      Result = [(''{\"host\":\"a\"}'',
                 (NewGauge ascii_lib 0 ''query_result_q'' [(''host'', ''a'')])\<lparr>Val := 1\<rparr>),
                (''{\"host\":\"b\"}'', NewGauge ascii_lib 1 ''query_result_q'' [(''host'', ''b'')])],
      registry = [1, 0], fresh = 2\<rparr>"


definition md_named :: "real state" where
  "md_named = NewQueryResult (md_query\<lparr>DataMetric := ''name''\<rparr>) [] 0"

lemmas model_defs =
  SetMetrics_def process_rows_def sd_row_def sd_col_def row_start_def md_col_def md_labels_def
  register_and_set_def registerMetric_def setValueForResult_def coerce_def NewGauge_def
  resultKey_def Marshal_def json_member_def make_labels_def Sprintf_v_def override_name_def
  ignoreNameCharRE_strip_def invalidNameCharRE_replace_def TrimSpace_def is_space_def
  name_chars_def RemoveMissingMetrics_def reap_step_def NewQueryResult_def Let_def

lemmas lib_defs =
  ascii_lib_def ascii_lib_with_def ascii_lower_def quote_def dec_int_def digit_val_def
  parse_digits_def sd_query_def sd_state_def md_query_def md_state_def

section \<open>The facet key does not depend on the order of the facet mapping\<close>

lemma eq_of_keys:
  "distinct (map fst xs) \<Longrightarrow> map fst xs = map fst ys \<Longrightarrow> set xs = set ys \<Longrightarrow> xs = ys"
proof (induction xs arbitrary: ys)
  case Nil
  then show ?case by simp
next
  case (Cons x xs)
  then obtain y ys' where ys: "ys = y # ys'" by (cases ys) auto
  from Cons.prems ys have k: "fst x = fst y" and ks: "map fst xs = map fst ys'" by auto
  from Cons.prems have nx: "fst x \<notin> fst ` set xs" by auto
  with ks have ny: "fst x \<notin> fst ` set ys'" by (metis list.set_map)
  have "x \<in> set ys" using Cons.prems by auto
  with ys ny have xy: "x = y" by (auto simp: image_iff)
  have "set xs = set ys'"
    using Cons.prems(3) ys xy nx ny by (auto simp: image_iff)
  with Cons.IH[of ys'] Cons.prems ks have "xs = ys'" by auto
  with xy ys show ?case by simp
qed

lemma sort_key_fst_unique:
  fixes A B :: "('k::linorder \<times> 'v) list"
  assumes "distinct (map fst A)" "distinct (map fst B)" "set A = set B"
  shows "sort_key fst A = sort_key fst B"
proof -
  let ?A = "sort_key fst A" and ?B = "sort_key fst B"
  have dA: "distinct (map fst ?A)" using assms(1) by (simp add: distinct_map)
  have dB: "distinct (map fst ?B)" using assms(2) by (simp add: distinct_map)
  have "set (map fst ?A) = set (map fst ?B)" using assms(3) by simp
  with dA dB have "map fst ?A = map fst ?B"
    by (intro sorted_distinct_set_unique) (auto simp: sorted_sort_key)
  moreover have "set ?A = set ?B" using assms(3) by simp
  ultimately show ?thesis using dA by (rule_tac eq_of_keys)
qed

text \<open>
  C3.  Two facet mappings with the same (key, value) pairs have the same facet key,
  whatever the order in which each holds its pairs: \<open>A\<close> and \<open>B\<close> are the two mappings
  in the order their pairs were inserted or are visited, their keys are distinct as in
  every Go map, and \<^verbatim>\<open>json.Marshal\<close> sorts the members by key.
\<close>

theorem facet_key_order_independent:
  assumes "distinct (map fst A)" and "distinct (map fst B)" and "set A = set B"
  shows "resultKey lib A = resultKey lib B"
  using sort_key_fst_unique[OF assms] by (simp add: resultKey_def Marshal_def)

theorem facet_key_order_independent_witness:
  "distinct (map fst [(''region'', VString ''eu''), (''metric'', VString ''cpu'')]) \<and>
   distinct (map fst [(''metric'', VString ''cpu''), (''region'', VString ''eu'')]) \<and>
   set [(''region'', VString ''eu''), (''metric'', VString ''cpu'')] =
     set [(''metric'', VString ''cpu''), (''region'', VString ''eu'')] \<and>
   resultKey ascii_lib [(''region'', VString ''eu''), (''metric'', VString ''cpu'')] =
     resultKey ascii_lib [(''metric'', VString ''cpu''), (''region'', VString ''eu'')]"
  using facet_key_order_independent
    [of "[(''region'', VString ''eu''), (''metric'', VString ''cpu'')]"
        "[(''metric'', VString ''cpu''), (''region'', VString ''eu'')]" ascii_lib]
  by auto

section \<open>The check before any row is processed\<close>

text \<open>
  C5.  A batch of more than one row whose first row has exactly one column fails with
  \<open>AmbiguousSingleColumnResult\<close>, and the result set and the registry are as they were
  before the call: no row was processed.  The statement does not look at the mode of the
  query, so it holds in both.
\<close>

theorem ambiguous_single_column:
  assumes "length recs > 1" and "length (recs ! 0) = 1"
  shows "SetMetrics lib st recs = (st, Inl AmbiguousSingleColumnResult)"
  using assms by (simp add: SetMetrics_def)

theorem ambiguous_single_column_witness:
  "length [[(''n'', VInt 1)], [(''n'', VInt 2 :: real val)]] > 1 \<and>
   length ([[(''n'', VInt 1)], [(''n'', VInt 2 :: real val)]] ! 0) = 1 \<and>
   SetMetrics ascii_lib sd_state [[(''n'', VInt 1)], [(''n'', VInt 2)]] =
     (sd_state, Inl AmbiguousSingleColumnResult) \<and>
   SetMetrics ascii_lib md_state [[(''n'', VInt 1)], [(''n'', VInt 2)]] =
     (md_state, Inl AmbiguousSingleColumnResult)"
  using ambiguous_single_column [of "[[(''n'', VInt 1)], [(''n'', VInt 2)]]" ascii_lib sd_state]
    ambiguous_single_column [of "[[(''n'', VInt 1)], [(''n'', VInt 2)]]" ascii_lib md_state]
  by simp

section \<open>What every step of SetMetrics preserves\<close>

text \<open>
  A property of the state that the registration and \<^verbatim>\<open>Set\<close> of lines 114-119 and
  146-151 preserve, and that the assignment to \<^verbatim>\<open>r.Query.Name\<close> preserves, holds after
  each loop and after \<^verbatim>\<open>SetMetrics\<close>, whatever it returns.
\<close>

lemma sd_rows_invariant:
  assumes step: "\<And>s fc dv s' r. P s \<Longrightarrow> register_and_set lib s fc dv = (s', r) \<Longrightarrow> P s'"
  shows "P st \<Longrightarrow> sd_rows lib st t rows = (st', r) \<Longrightarrow> P st'"
proof (induction rows arbitrary: st t)
  case Nil
  then show ?case by simp
next
  case (Cons row rows)
  obtain s1 r1 where s1: "sd_row lib st row = (s1, r1)" by (cases "sd_row lib st row")
  have p1: "P s1"
    using s1 Cons.prems(1) step by (auto simp: sd_row_def Let_def split: if_splits)
  show ?case
  proof (cases r1)
    case (Inl e)
    with Cons.prems s1 p1 show ?thesis by simp
  next
    case (Inr key)
    with Cons.prems s1 have "sd_rows lib s1 (AList.update key True t) rows = (st', r)" by simp
    with Cons.IH p1 show ?thesis by blast
  qed
qed

lemma md_cols_invariant:
  assumes step: "\<And>s fc dv s' r. P s \<Longrightarrow> register_and_set lib s fc dv = (s', r) \<Longrightarrow> P s'"
    and qry: "\<And>s kv l. P s \<Longrightarrow> P (s\<lparr>Query := fst (md_col lib kv (Query s, l))\<rparr>)"
  shows "P st \<Longrightarrow> md_cols lib st l t cols = (st', r) \<Longrightarrow> P st'"
proof (induction cols arbitrary: st l t)
  case Nil
  then show ?case by simp
next
  case (Cons kv cols)
  obtain q1 l1 where c: "md_col lib kv (Query st, l) = (q1, l1)"
    by (cases "md_col lib kv (Query st, l)")
  obtain s2 r2 where s2: "register_and_set lib (st\<lparr>Query := q1\<rparr>) (facet l1) (dataVal l1) = (s2, r2)"
    by (cases "register_and_set lib (st\<lparr>Query := q1\<rparr>) (facet l1) (dataVal l1)")
  have "P (st\<lparr>Query := q1\<rparr>)" using qry[OF Cons.prems(1), of kv l] c by simp
  then have p2: "P s2" using s2 by (rule step)
  show ?case
  proof (cases r2)
    case (Inl e)
    with Cons.prems c s2 p2 show ?thesis by simp
  next
    case (Inr key)
    with Cons.prems c s2 have "md_cols lib s2 l1 (AList.update key True t) cols = (st', r)" by simp
    with Cons.IH p2 show ?thesis by blast
  qed
qed

lemma md_rows_invariant:
  assumes step: "\<And>s fc dv s' r. P s \<Longrightarrow> register_and_set lib s fc dv = (s', r) \<Longrightarrow> P s'"
    and qry: "\<And>s kv l. P s \<Longrightarrow> P (s\<lparr>Query := fst (md_col lib kv (Query s, l))\<rparr>)"
  shows "P st \<Longrightarrow> md_rows lib st t rows = (st', r) \<Longrightarrow> P st'"
proof (induction rows arbitrary: st t)
  case Nil
  then show ?case by simp
next
  case (Cons row rows)
  show ?case
  proof (cases "length row > 1 \<and> DataMetric (Query st) \<noteq> []")
    case True
    with Cons.prems show ?thesis by auto
  next
    case False
    obtain s1 r1 where s1: "md_cols lib st row_start t row = (s1, r1)"
      by (cases "md_cols lib st row_start t row")
    have p1: "P s1"
      by (rule md_cols_invariant[where P=P and lib=lib, OF _ _ Cons.prems(1) s1])
        (erule (1) step, erule qry)
    show ?thesis
    proof (cases r1)
      case (Inl e)
      with Cons.prems s1 p1 False show ?thesis by auto
    next
      case (Inr t1)
      with Cons.prems s1 False have "md_rows lib s1 t1 rows = (st', r)" by auto
      with Cons.IH p1 show ?thesis by blast
    qed
  qed
qed

lemma SetMetrics_invariant:
  assumes step: "\<And>s fc dv s' r. P s \<Longrightarrow> register_and_set lib s fc dv = (s', r) \<Longrightarrow> P s'"
    and qry: "\<And>s kv l. P s \<Longrightarrow> P (s\<lparr>Query := fst (md_col lib kv (Query s, l))\<rparr>)"
    and init: "P st" and run: "SetMetrics lib st recs = (st', r)"
  shows "P st'"
proof (cases "length recs > 1 \<and> length (recs ! 0) = 1")
  case True
  with run init show ?thesis by (simp add: SetMetrics_def)
next
  case False
  then have "SetMetrics lib st recs = process_rows lib st recs"
    unfolding SetMetrics_def by (rule if_not_P)
  with run have p: "process_rows lib st recs = (st', r)" by simp
  show ?thesis
  proof (cases "MultiDimensional (Query st)")
    case True
    with p have mr: "md_rows lib st [] recs = (st', r)" by (simp add: process_rows_def)
    show ?thesis
      by (rule md_rows_invariant[where P=P and lib=lib, OF _ _ init mr]) (erule (1) step, erule qry)
  next
    case False
    with p have sr: "sd_rows lib st [] recs = (st', r)" by (simp add: process_rows_def)
    show ?thesis
      by (rule sd_rows_invariant[where P=P and lib=lib, OF _ init sr]) (erule (1) step)
  qed
qed

subsection \<open>Registration leaves the query as it is\<close>



subsection \<open>No series is dropped\<close>

lemma same_gauge_refl [simp]: "same_gauge g g"
  by (simp add: same_gauge_def)

lemma same_gauge_Val [simp]: "same_gauge g (g\<lparr>Val := x\<rparr>)"
  by (simp add: same_gauge_def)

lemma same_gauge_trans: "same_gauge a b \<Longrightarrow> same_gauge b c \<Longrightarrow> same_gauge a c"
  by (simp add: same_gauge_def)

lemma keeps_refl: "keeps st st"
  by (simp add: keeps_def)

lemma keeps_trans: "keeps a b \<Longrightarrow> keeps b c \<Longrightarrow> keeps a c"
  unfolding keeps_def by (meson same_gauge_trans subset_trans)

lemma keeps_Query [simp]: "keeps st (st'\<lparr>Query := q\<rparr>) = keeps st st'"
  "keeps (st\<lparr>Query := q\<rparr>) st' = keeps st st'"
  by (simp_all add: keeps_def)


lemma registerMetric_keeps: "registerMetric lib st fc = (st', r) \<Longrightarrow> keeps st st'"
  by (auto simp: registerMetric_def Let_def keeps_def update_conv' split: if_splits)

lemma setValueForResult_keeps: "setValueForResult lib st key v = (st', r) \<Longrightarrow> keeps st st'"
  by (auto simp: setValueForResult_def keeps_def map_of_map_entry split: sum.splits)

lemma register_and_set_keeps: "register_and_set lib st fc dv = (st', r) \<Longrightarrow> keeps st st'"
  by (auto simp: register_and_set_def split: prod.splits sum.splits option.splits
      dest!: registerMetric_keeps setValueForResult_keeps intro: keeps_trans)

lemma sd_rows_keeps: "sd_rows lib st t rows = (st', r) \<Longrightarrow> keeps st st'"
  by (rule sd_rows_invariant[where P="keeps st" and lib=lib, OF _ keeps_refl])
    (erule keeps_trans, erule register_and_set_keeps)

lemma md_cols_keeps: "md_cols lib st l t cols = (st', r) \<Longrightarrow> keeps st st'"
  by (rule md_cols_invariant[where P="keeps st" and lib=lib, OF _ _ keeps_refl])
    (erule keeps_trans, erule register_and_set_keeps, simp)

lemma md_rows_keeps: "md_rows lib st t rows = (st', r) \<Longrightarrow> keeps st st'"
  by (rule md_rows_invariant[where P="keeps st" and lib=lib, OF _ _ keeps_refl])
    (erule keeps_trans, erule register_and_set_keeps, simp)

lemma SetMetrics_keeps: "SetMetrics lib st recs = (st', r) \<Longrightarrow> keeps st st'"
  by (rule SetMetrics_invariant[where P="keeps st" and lib=lib, OF _ _ keeps_refl])
    (erule keeps_trans, erule register_and_set_keeps, simp)

subsection \<open>The result set stays a map of distinct gauge objects\<close>





lemma gid_NewGauge [simp]: "gid (NewGauge lib i n l) = i"
  by (simp add: NewGauge_def)

lemma wf_Query [simp]: "wf (st\<lparr>Query := q\<rparr>) = wf st"
  by (simp add: wf_def)






section \<open>Reaping\<close>

lemma reap_step_Result:
  "Result (reap_step t y st) =
     (if map_of t (fst y) = None then filter (\<lambda>km. fst km \<noteq> fst y) (Result st) else Result st)"
  by (auto simp: reap_step_def AList.delete_eq intro!: filter_cong)

lemma reap_step_registry:
  "registry (reap_step t y st) =
     (if map_of t (fst y) = None then filter (\<lambda>i. i \<noteq> gid (snd y)) (registry st) else registry st)"
  by (auto simp: reap_step_def removeAll_filter_not_eq intro!: filter_cong)

lemma fold_reap_fresh: "fresh (fold (reap_step t) ys st) = fresh st"
  by (induction ys arbitrary: st) (simp_all add: reap_step_def)

lemma fold_reap_Result:
  "Result (fold (reap_step t) ys st) =
     filter (\<lambda>km. \<not> (\<exists>y \<in> set ys. fst y = fst km \<and> map_of t (fst y) = None)) (Result st)"
proof (induction ys arbitrary: st)
  case Nil
  then show ?case by simp
next
  case (Cons y ys)
  have "Result (fold (reap_step t) (y # ys) st) = Result (fold (reap_step t) ys (reap_step t y st))"
    by simp
  also have "\<dots> = filter (\<lambda>km. \<not> (\<exists>y \<in> set ys. fst y = fst km \<and> map_of t (fst y) = None))
                      (Result (reap_step t y st))"
    by (rule Cons.IH)
  also have "\<dots> = filter (\<lambda>km. \<not> (\<exists>y \<in> set (y # ys). fst y = fst km \<and> map_of t (fst y) = None))
                      (Result st)"
    by (auto simp: reap_step_Result intro!: filter_cong)
  finally show ?case .
qed

lemma fold_reap_registry:
  "registry (fold (reap_step t) ys st) =
     filter (\<lambda>i. \<not> (\<exists>y \<in> set ys. gid (snd y) = i \<and> map_of t (fst y) = None)) (registry st)"
proof (induction ys arbitrary: st)
  case Nil
  then show ?case by simp
next
  case (Cons y ys)
  have "registry (fold (reap_step t) (y # ys) st) = registry (fold (reap_step t) ys (reap_step t y st))"
    by simp
  also have "\<dots> = filter (\<lambda>i. \<not> (\<exists>y \<in> set ys. gid (snd y) = i \<and> map_of t (fst y) = None))
                      (registry (reap_step t y st))"
    by (rule Cons.IH)
  also have "\<dots> = filter (\<lambda>i. \<not> (\<exists>y \<in> set (y # ys). gid (snd y) = i \<and> map_of t (fst y) = None))
                      (registry st)"
    by (auto simp: reap_step_registry intro!: filter_cong)
  finally show ?case .
qed

lemma RemoveMissingMetrics_wf:
  assumes "wf st"
  shows "wf (RemoveMissingMetrics st touched)"
  using assms
  unfolding wf_def RemoveMissingMetrics_def fold_reap_Result fold_reap_fresh
  by (auto simp: distinct_map_filter list_all_iff)

text \<open>
  C2.  Reaping with the touched set \<open>touched\<close>, for every entry \<open>(key, g)\<close> of the result
  set: when \<open>key\<close> is not in \<open>touched\<close>, the key is gone from the result set and the gauge
  is not in the registry; when \<open>key\<close> is in \<open>touched\<close>, the key still maps to the same
  gauge, value included, and the gauge is still registered if it was.  The result set is
  well formed (\<open>wf\<close>), which \<^verbatim>\<open>NewQueryResult\<close> establishes and \<^verbatim>\<open>SetMetrics\<close> and
  \<^verbatim>\<open>RemoveMissingMetrics\<close> preserve.
\<close>

theorem reap_contract:
  assumes w: "wf st"
    and mem: "(key, g) \<in> set (Result st)"
  shows "(map_of touched key = None \<longrightarrow>
            map_of (Result (RemoveMissingMetrics st touched)) key = None \<and>
            gid g \<notin> set (registry (RemoveMissingMetrics st touched))) \<and>
         (map_of touched key \<noteq> None \<longrightarrow>
            map_of (Result (RemoveMissingMetrics st touched)) key = Some g \<and>
            (gid g \<in> set (registry st) \<longrightarrow>
               gid g \<in> set (registry (RemoveMissingMetrics st touched))))"
proof (intro conjI impI)
  assume n: "map_of touched key = None"
  show "map_of (Result (RemoveMissingMetrics st touched)) key = None"
    using n mem
    by (force simp: RemoveMissingMetrics_def fold_reap_Result map_of_eq_None_iff image_iff)
  show "gid g \<notin> set (registry (RemoveMissingMetrics st touched))"
    using n mem by (force simp: RemoveMissingMetrics_def fold_reap_registry)
next
  assume s: "map_of touched key \<noteq> None"
  from w have dk: "distinct (map fst (Result st))"
    and dg: "distinct (map (\<lambda>km. gid (snd km)) (Result st))"
    by (simp_all add: wf_def)
  have "map_of (filter (\<lambda>km. \<not> (\<exists>y \<in> set (Result st). fst y = fst km \<and> map_of touched (fst y) = None))
                  (Result st)) key = Some g"
    using dk mem s
    by (intro map_of_is_SomeI) (auto simp: distinct_map_filter)
  then show "map_of (Result (RemoveMissingMetrics st touched)) key = Some g"
    by (simp add: RemoveMissingMetrics_def fold_reap_Result)
  show "gid g \<in> set (registry (RemoveMissingMetrics st touched))"
    if r: "gid g \<in> set (registry st)"
  proof -
    have "\<not> (\<exists>y \<in> set (Result st). gid (snd y) = gid g \<and> map_of touched (fst y) = None)"
    proof
      assume "\<exists>y \<in> set (Result st). gid (snd y) = gid g \<and> map_of touched (fst y) = None"
      then obtain y where y: "y \<in> set (Result st)" "gid (snd y) = gid g"
          "map_of touched (fst y) = None"
        by blast
      from dg have "inj_on (\<lambda>km. gid (snd km)) (set (Result st))" by (simp add: distinct_map)
      from inj_onD[OF this, of y "(key, g)"] y mem have "y = (key, g)" by simp
      with y s show False by simp
    qed
    with r show ?thesis
      by (simp add: RemoveMissingMetrics_def fold_reap_registry)
  qed
qed

theorem reap_contract_witness:
  "wf two_series \<and>
   (''{\"host\":\"a\"}'', NewGauge ascii_lib 0 ''query_result_q'' [(''host'', ''a'')])
      \<in> set (Result two_series) \<and>
   (''{\"host\":\"b\"}'', NewGauge ascii_lib 1 ''query_result_q'' [(''host'', ''b'')])
      \<in> set (Result two_series) \<and>
   map_of (Result (RemoveMissingMetrics two_series [(''{\"host\":\"a\"}'', True)])) ''{\"host\":\"a\"}''
      = Some (NewGauge ascii_lib 0 ''query_result_q'' [(''host'', ''a'')]) \<and>
   0 \<in> set (registry (RemoveMissingMetrics two_series [(''{\"host\":\"a\"}'', True)])) \<and>
   map_of (Result (RemoveMissingMetrics two_series [(''{\"host\":\"a\"}'', True)])) ''{\"host\":\"b\"}''
      = None \<and>
   1 \<notin> set (registry (RemoveMissingMetrics two_series [(''{\"host\":\"a\"}'', True)]))"
  using reap_contract [of two_series "''{\"host\":\"a\"}''"
      "NewGauge ascii_lib 0 ''query_result_q'' [(''host'', ''a'')]" "[(''{\"host\":\"a\"}'', True)]"]
    reap_contract [of two_series "''{\"host\":\"b\"}''"
      "NewGauge ascii_lib 1 ''query_result_q'' [(''host'', ''b'')]" "[(''{\"host\":\"a\"}'', True)]"]
  by (simp add: two_series_def NewGauge_def wf_def)

section \<open>A batch of one row with one column\<close>

text \<open>The key of the empty facet mapping, whatever the library.\<close>

lemma resultKey_empty: "resultKey lib [] = ''{}''"
  by (simp add: resultKey_def Marshal_def)

text \<open>
  C10.  In single-dimensional mode, for a batch of exactly one row with exactly one
  column \<open>(k, v)\<close>, whatever \<open>k\<close> and the data field are: the call fails neither with
  \<open>MissingDataField\<close> nor with \<open>DataFieldNotFound\<close>; the series is stored under the
  key of the empty facet mapping (\<open>resultKey lib []\<close>), and when it is new it has no label and is in the
  registry (unless the registry rejects it, the only case in which \<^verbatim>\<open>MustRegister\<close>
  panics); and \<open>v\<close> is the data value: the call returns the error of coercing \<open>v\<close>, or
  returns that one key as touched with the gauge set to the coerced \<open>v\<close>.
\<close>

theorem single_column_row:
  assumes sd: "\<not> MultiDimensional (Query st)"
    and run: "SetMetrics lib st [[(k, v)]] = (st', res)"
  shows "res \<noteq> Inl MissingDataField \<and> res \<noteq> Inl DataFieldNotFound \<and>
         (res = Inl MustRegisterPanic \<longleftrightarrow>
            map_of (Result st) (resultKey lib []) = None \<and>
            \<not> MustRegister_ok lib (registry st)
                (NewGauge lib (fresh st) (''query_result_'' @ Name (Query st)) [])) \<and>
         (\<exists>g. map_of (Result st') (resultKey lib []) = Some g \<and>
              (map_of (Result st) (resultKey lib []) = None \<longrightarrow>
                 ConstLabels g = [] \<and> gid g = fresh st)) \<and>
         (res \<noteq> Inl MustRegisterPanic \<longrightarrow>
            (map_of (Result st) (resultKey lib []) = None \<longrightarrow> fresh st \<in> set (registry st')) \<and>
            (case coerce lib v of
               Inl e \<Rightarrow> res = Inl e
             | Inr f \<Rightarrow> res = Inr [(resultKey lib [], True)] \<and>
                        map_option Val (map_of (Result st') (resultKey lib [])) = Some f))"
proof -
  have l: "fold (sd_col lib (Query st) (length [(k, v)])) [(k, v)] row_start
             = \<lparr>facet = [], dataVal = v, dataFound = True\<rparr>"
    by (simp add: sd_col_def row_start_def)
  have r: "(case register_and_set lib st [] v of
              (st1, Inl e) \<Rightarrow> (st1, Inl e)
            | (st1, Inr key) \<Rightarrow> (st1, Inr [(key, True)])) = (st', res)"
    using run sd l by (simp add: SetMetrics_def process_rows_def sd_row_def)
  have c: "coerce lib v \<noteq> Inl MustRegisterPanic" "coerce lib v \<noteq> Inl MissingDataField"
      "coerce lib v \<noteq> Inl DataFieldNotFound"
    by (auto simp: coerce_def split: val.splits option.splits)
  show ?thesis
    using r c
    by (auto simp: register_and_set_def registerMetric_def setValueForResult_def make_labels_def
          NewGauge_def Let_def update_conv' map_of_map_entry
        split: if_splits sum.splits prod.splits option.splits)
qed

theorem single_column_row_witness:
  "\<not> MultiDimensional (Query (sd_state\<lparr>Query := sd_query\<lparr>DataField := []\<rparr>\<rparr>)) \<and>
   snd (SetMetrics ascii_lib (sd_state\<lparr>Query := sd_query\<lparr>DataField := []\<rparr>\<rparr>) [[(''n'', VInt 7)]])
     = Inr [(''{}'', True)] \<and>
   map_option Val (map_of (Result (fst (SetMetrics ascii_lib (sd_state\<lparr>Query := sd_query\<lparr>DataField := []\<rparr>\<rparr>) [[(''n'', VInt 7)]]))) ''{}'') = Some 7"
  using single_column_row [of "sd_state\<lparr>Query := sd_query\<lparr>DataField := []\<rparr>\<rparr>" ascii_lib "''n''" "VInt 7"
     "fst (SetMetrics ascii_lib (sd_state\<lparr>Query := sd_query\<lparr>DataField := []\<rparr>\<rparr>) [[(''n'', VInt 7)]])"
     "snd (SetMetrics ascii_lib (sd_state\<lparr>Query := sd_query\<lparr>DataField := []\<rparr>\<rparr>) [[(''n'', VInt 7)]])"]
  by (simp add: model_defs lib_defs)

section \<open>A failed call removes nothing\<close>

lemma sd_rows_append:
  "sd_rows lib st t (pre @ post) =
     (case sd_rows lib st t pre of
        (s1, Inl e) \<Rightarrow> (s1, Inl e)
      | (s1, Inr t1) \<Rightarrow> sd_rows lib s1 t1 post)"
  by (induction pre arbitrary: st t) (auto split: prod.splits sum.splits)

lemma md_rows_append:
  "md_rows lib st t (pre @ post) =
     (case md_rows lib st t pre of
        (s1, Inl e) \<Rightarrow> (s1, Inl e)
      | (s1, Inr t1) \<Rightarrow> md_rows lib s1 t1 post)"
  by (induction pre arbitrary: st t) (auto split: prod.splits sum.splits)

lemma process_rows_append:
  "process_rows lib st (pre @ post) =
     (case process_rows lib st pre of
        (s1, Inl e) \<Rightarrow> (s1, Inl e)
      | (s1, Inr t1) \<Rightarrow>
          (if MultiDimensional (Query st) then md_rows lib s1 t1 post
           else sd_rows lib s1 t1 post))"
  by (auto simp: process_rows_def sd_rows_append md_rows_append split: prod.splits sum.splits)

text \<open>
  C9.  When \<^verbatim>\<open>SetMetrics\<close> returns an error (or \<^verbatim>\<open>MustRegister\<close> panics), every series
  that was in the result set before the call is still there under its key, the same
  gauge object with the same name and labels, and every gauge that was registered still
  is (\<open>keeps st st'\<close>): nothing is reaped.  The same holds for the series the earlier rows
  of the failing batch have added: \<open>s1\<close> is the state the call has reached after the
  rows \<open>pre\<close>, once the check of lines 77-79 has let the batch through.
\<close>

theorem failed_batch_keeps_series:
  assumes run: "SetMetrics lib st recs = (st', Inl e)"
  shows "keeps st st' \<and>
         (\<forall>pre post s1 t1.
            recs = pre @ post \<and> \<not> (length recs > 1 \<and> length (recs ! 0) = 1) \<and>
            process_rows lib st pre = (s1, Inr t1) \<longrightarrow> keeps s1 st')"
proof (intro conjI allI impI)
  show "keeps st st'" using run by (rule SetMetrics_keeps)
next
  fix pre post s1 t1
  assume a: "recs = pre @ post \<and> \<not> (length recs > 1 \<and> length (recs ! 0) = 1) \<and>
            process_rows lib st pre = (s1, Inr t1)"
  from a have "\<not> (length recs > 1 \<and> length (recs ! 0) = 1)" by blast
  then have "SetMetrics lib st recs = process_rows lib st recs"
    unfolding SetMetrics_def by (rule if_not_P)
  with run a have p: "process_rows lib st (pre @ post) = (st', Inl e)"
    by simp
  show "keeps s1 st'"
  proof (cases "MultiDimensional (Query st)")
    case True
    with p a have "md_rows lib s1 t1 post = (st', Inl e)" by (simp add: process_rows_append)
    then show ?thesis by (rule md_rows_keeps)
  next
    case False
    with p a have "sd_rows lib s1 t1 post = (st', Inl e)" by (simp add: process_rows_append)
    then show ?thesis by (rule sd_rows_keeps)
  qed
qed

theorem failed_batch_keeps_series_witness:
  "SetMetrics ascii_lib sd_state [[host_a, value_1], [host_b, value_nil]]
     = (failed_state, Inl UnsupportedValueType) \<and>
   process_rows ascii_lib sd_state [[host_a, value_1]] = (one_series, Inr [(''{\"host\":\"a\"}'', True)]) \<and>
   keeps sd_state failed_state \<and> keeps one_series failed_state"
proof -
  have h: "SetMetrics ascii_lib sd_state [[host_a, value_1], [host_b, value_nil]]
     = (failed_state, Inl UnsupportedValueType)"
    by (simp add: model_defs lib_defs host_a_def host_b_def value_1_def value_nil_def failed_state_def)
  have p: "process_rows ascii_lib sd_state [[host_a, value_1]]
     = (one_series, Inr [(''{\"host\":\"a\"}'', True)])"
    by (simp add: model_defs lib_defs host_a_def value_1_def one_series_def)
  have c: "[[host_a, value_1], [host_b, value_nil]] = [[host_a, value_1]] @ [[host_b, value_nil]] \<and>
           \<not> (length [[host_a, value_1], [host_b, value_nil]] > 1 \<and>
              length ([[host_a, value_1], [host_b, value_nil]] ! 0) = 1) \<and>
           process_rows ascii_lib sd_state [[host_a, value_1]]
             = (one_series, Inr [(''{\"host\":\"a\"}'', True)])"
    using p by simp
  from failed_batch_keeps_series[OF h] c have "keeps sd_state failed_state \<and> keeps one_series failed_state"
    by blast
  with h p show ?thesis by blast
qed

section \<open>Processing the same batch again\<close>

lemma same_shape_refl [simp]: "same_shape u u"
  by (simp add: same_shape_def list_all2_refl)


lemma same_shape_Query [simp]:
  "same_shape (u\<lparr>Query := q\<rparr>) u' = same_shape u u'"
  "same_shape u (u'\<lparr>Query := q\<rparr>) = same_shape u u'"
  by (simp_all add: same_shape_def)




lemma val_at_Query [simp]: "val_at (u\<lparr>Query := q\<rparr>) k = val_at u k"
  by (simp add: val_at_def)

lemma vrel_refl [simp]: "vrel s s u u"
  by (simp add: vrel_def)





subsection \<open>The columns of a row visited in another order\<close>






subsection \<open>The second run\<close>








section \<open>The multi-dimensional example of the specification\<close>

text \<open>
  The row \<open>{region: "eu", cpu: 10, mem: 20}\<close> with the label column \<open>region\<close> and the
  synthetic label \<open>metric\<close>, in each of the six orders in which its columns can be
  visited, and whatever the registry accepts (\<open>ok\<close>).  Lines 114-119 run for every
  column, on the facets gathered so far.
\<close>

lemma region_first:
  "snd (SetMetrics (ascii_lib_with ok) md_state [[region_eu, c1, c2]]) = Inl UnsupportedValueType \<or>
   snd (SetMetrics (ascii_lib_with ok) md_state [[region_eu, c1, c2]]) = Inl MustRegisterPanic"
  by (simp add: model_defs lib_defs region_eu_def)

lemma cpu_region_mem:
  "snd (SetMetrics (ascii_lib_with ok) md_state [[cpu_10, region_eu, mem_20]]) = Inl MustRegisterPanic \<or>
    series (fst (SetMetrics (ascii_lib_with ok) md_state [[cpu_10, region_eu, mem_20]])) =
      [(''{\"metric\":\"cpu\"}'', 10),
       (''{\"metric\":\"cpu\",\"region\":\"eu\"}'', 10),
       (''{\"metric\":\"mem\",\"region\":\"eu\"}'', 20)]"
  by (simp add: model_defs lib_defs region_eu_def cpu_10_def mem_20_def series_def)

lemma cpu_mem_region:
  "snd (SetMetrics (ascii_lib_with ok) md_state [[cpu_10, mem_20, region_eu]]) = Inl MustRegisterPanic \<or>
    series (fst (SetMetrics (ascii_lib_with ok) md_state [[cpu_10, mem_20, region_eu]])) =
      [(''{\"metric\":\"cpu\"}'', 10),
       (''{\"metric\":\"mem\"}'', 20),
       (''{\"metric\":\"mem\",\"region\":\"eu\"}'', 20)]"
  by (simp add: model_defs lib_defs region_eu_def cpu_10_def mem_20_def series_def)

lemma mem_region_cpu:
  "snd (SetMetrics (ascii_lib_with ok) md_state [[mem_20, region_eu, cpu_10]]) = Inl MustRegisterPanic \<or>
    series (fst (SetMetrics (ascii_lib_with ok) md_state [[mem_20, region_eu, cpu_10]])) =
      [(''{\"metric\":\"mem\"}'', 20),
       (''{\"metric\":\"mem\",\"region\":\"eu\"}'', 20),
       (''{\"metric\":\"cpu\",\"region\":\"eu\"}'', 10)]"
  by (simp add: model_defs lib_defs region_eu_def cpu_10_def mem_20_def series_def)

lemma mem_cpu_region:
  "snd (SetMetrics (ascii_lib_with ok) md_state [[mem_20, cpu_10, region_eu]]) = Inl MustRegisterPanic \<or>
    series (fst (SetMetrics (ascii_lib_with ok) md_state [[mem_20, cpu_10, region_eu]])) =
      [(''{\"metric\":\"mem\"}'', 20),
       (''{\"metric\":\"cpu\"}'', 10),
       (''{\"metric\":\"cpu\",\"region\":\"eu\"}'', 10)]"
  by (simp add: model_defs lib_defs region_eu_def cpu_10_def mem_20_def series_def)

lemma named_row:
  "SetMetrics (ascii_lib_with ok) md_named [[region_eu, cpu_10, mem_20]]
     = (md_named, Inl MissingDataMetricColumn)"
  by (simp add: SetMetrics_def process_rows_def md_named_def md_query_def NewQueryResult_def)

text \<open>
  C1.  What the code does on the example, to compare with the two series the claim
  expects.  When \<open>region\<close> is visited first, the series of \<open>{region: eu}\<close> is registered
  and the call fails, \<^verbatim>\<open>dataVal\<close> being nil (or \<^verbatim>\<open>MustRegister\<close> panics).  In the four
  other orders the call registers three series, the first ones on partial facets (or
  \<^verbatim>\<open>MustRegister\<close> panics).  With the condition of line 86 true, the call fails with
  \<open>MissingDataMetricColumn\<close>.  In no case is the outcome the two series keyed by
  \<open>{metric: cpu, region: eu}\<close> and \<open>{metric: mem, region: eu}\<close>.
\<close>

theorem example_row_outcomes:
  "(snd (SetMetrics (ascii_lib_with ok) md_state [[region_eu, cpu_10, mem_20]]) = Inl UnsupportedValueType \<or>
    snd (SetMetrics (ascii_lib_with ok) md_state [[region_eu, cpu_10, mem_20]]) = Inl MustRegisterPanic) \<and>
   (snd (SetMetrics (ascii_lib_with ok) md_state [[region_eu, mem_20, cpu_10]]) = Inl UnsupportedValueType \<or>
    snd (SetMetrics (ascii_lib_with ok) md_state [[region_eu, mem_20, cpu_10]]) = Inl MustRegisterPanic) \<and>
   (snd (SetMetrics (ascii_lib_with ok) md_state [[cpu_10, region_eu, mem_20]]) = Inl MustRegisterPanic \<or>
    series (fst (SetMetrics (ascii_lib_with ok) md_state [[cpu_10, region_eu, mem_20]])) =
      [(''{\"metric\":\"cpu\"}'', 10),
       (''{\"metric\":\"cpu\",\"region\":\"eu\"}'', 10),
       (''{\"metric\":\"mem\",\"region\":\"eu\"}'', 20)]) \<and>
   (snd (SetMetrics (ascii_lib_with ok) md_state [[cpu_10, mem_20, region_eu]]) = Inl MustRegisterPanic \<or>
    series (fst (SetMetrics (ascii_lib_with ok) md_state [[cpu_10, mem_20, region_eu]])) =
      [(''{\"metric\":\"cpu\"}'', 10),
       (''{\"metric\":\"mem\"}'', 20),
       (''{\"metric\":\"mem\",\"region\":\"eu\"}'', 20)]) \<and>
   (snd (SetMetrics (ascii_lib_with ok) md_state [[mem_20, region_eu, cpu_10]]) = Inl MustRegisterPanic \<or>
    series (fst (SetMetrics (ascii_lib_with ok) md_state [[mem_20, region_eu, cpu_10]])) =
      [(''{\"metric\":\"mem\"}'', 20),
       (''{\"metric\":\"mem\",\"region\":\"eu\"}'', 20),
       (''{\"metric\":\"cpu\",\"region\":\"eu\"}'', 10)]) \<and>
   (snd (SetMetrics (ascii_lib_with ok) md_state [[mem_20, cpu_10, region_eu]]) = Inl MustRegisterPanic \<or>
    series (fst (SetMetrics (ascii_lib_with ok) md_state [[mem_20, cpu_10, region_eu]])) =
      [(''{\"metric\":\"mem\"}'', 20),
       (''{\"metric\":\"cpu\"}'', 10),
       (''{\"metric\":\"cpu\",\"region\":\"eu\"}'', 10)]) \<and>
   SetMetrics (ascii_lib_with ok) md_named [[region_eu, cpu_10, mem_20]]
     = (md_named, Inl MissingDataMetricColumn)"
  by (intro conjI region_first cpu_region_mem cpu_mem_region mem_region_cpu mem_cpu_region named_row)

section \<open>The casing of label names and values\<close>

text \<open>
  Label names: line 135 stores every facet under the lower-cased column name, so two
  columns whose names differ only in case are the same facet, and every facet name of a
  row is a lower-cased column name.  Label values: line 37 gives every label the
  lower-cased print of the facet's value.
\<close>

lemma sd_col_name_casing:
  assumes "ToLower lib k = ToLower lib k'"
  shows "sd_col lib q n (k, v) l = sd_col lib q n (k', v) l"
  using assms by (simp add: sd_col_def Sprintf_v_def)

lemma sd_facet_names_lower:
  "fst ` set (facet (fold (sd_col lib q n) row l)) \<subseteq> fst ` set (facet l) \<union> ToLower lib ` fst ` set row"
proof (induction row arbitrary: l)
  case Nil
  then show ?case by simp
next
  case (Cons kv row)
  have "fst ` set (facet (sd_col lib q n kv l)) \<subseteq> fst ` set (facet l) \<union> {ToLower lib (fst kv)}"
    by (auto simp: sd_col_def Sprintf_v_def dom_update)
  with Cons.IH[of "sd_col lib q n kv l"] show ?case by auto
qed

lemma fold_update_map_of:
  "map_of (fold (\<lambda>kv acc. AList.update (fst kv) (f (snd kv)) acc) xs acc) k =
     (case map_of (rev xs) k of Some v \<Rightarrow> Some (f v) | None \<Rightarrow> map_of acc k)"
  by (induction xs arbitrary: acc) (auto simp: update_conv' map_add_def split: option.splits)

lemma make_labels_lower:
  "map_of (make_labels lib fc) k = map_option (\<lambda>v. ToLower lib (Sprintf_v lib v)) (map_of (rev fc) k)"
  unfolding make_labels_def
  using fold_update_map_of[of "\<lambda>v. ToLower lib (Sprintf_v lib v)" fc "[]" k]
  by (simp split: option.splits)

text \<open>The facet key, though, is computed from the values as they are.\<close>

lemma value_casing_keys:
  "resultKey ascii_lib [host_upper_A] \<noteq> resultKey ascii_lib [host_a] \<and>
   make_labels ascii_lib [host_upper_A] = make_labels ascii_lib [host_a]"
  by (simp add: model_defs lib_defs host_a_def host_upper_A_def)

lemma value_casing_batch:
  "snd (SetMetrics (ascii_lib_with ok) sd_state [[host_upper_A, value_1], [host_a, value_1]])
      = Inl MustRegisterPanic \<or>
    snd (SetMetrics (ascii_lib_with ok) sd_state [[host_upper_A, value_1], [host_a, value_1]])
      = Inr [(''{\"host\":\"A\"}'', True), (''{\"host\":\"a\"}'', True)] \<and>
    map (\<lambda>km. (fst km, gName (snd km), ConstLabels (snd km)))
      (Result (fst (SetMetrics (ascii_lib_with ok) sd_state [[host_upper_A, value_1], [host_a, value_1]])))
      = [(''{\"host\":\"A\"}'', ''query_result_q'', [(''host'', ''a'')]),
         (''{\"host\":\"a\"}'', ''query_result_q'', [(''host'', ''a'')])]"
  by (simp add: model_defs lib_defs host_a_def host_upper_A_def value_1_def)

text \<open>
  C4.  What the code does on two rows that differ only in the casing of a label value,
  \<open>host = "A"\<close> and \<open>host = "a"\<close>: the facet keys differ, because line 33 encodes the
  values as they are, while the labels are equal, because line 37 lower-cases them.
  The batch ends with two series under two keys, both named \<open>query_result_q\<close> with the
  label \<open>host = a\<close>, unless the registry rejects one of the two gauges and
  \<^verbatim>\<open>MustRegister\<close> panics.
\<close>

theorem value_casing_outcome:
  "resultKey ascii_lib [host_upper_A] \<noteq> resultKey ascii_lib [host_a] \<and>
   make_labels ascii_lib [host_upper_A] = make_labels ascii_lib [host_a] \<and>
   (snd (SetMetrics (ascii_lib_with ok) sd_state [[host_upper_A, value_1], [host_a, value_1]])
      = Inl MustRegisterPanic \<or>
    snd (SetMetrics (ascii_lib_with ok) sd_state [[host_upper_A, value_1], [host_a, value_1]])
      = Inr [(''{\"host\":\"A\"}'', True), (''{\"host\":\"a\"}'', True)] \<and>
    map (\<lambda>km. (fst km, gName (snd km), ConstLabels (snd km)))
      (Result (fst (SetMetrics (ascii_lib_with ok) sd_state [[host_upper_A, value_1], [host_a, value_1]])))
      = [(''{\"host\":\"A\"}'', ''query_result_q'', [(''host'', ''a'')]),
         (''{\"host\":\"a\"}'', ''query_result_q'', [(''host'', ''a'')])])"
  using value_casing_keys value_casing_batch[of ok] by blast

section \<open>The override of the metric's name\<close>

lemma override_name_eq:
  "override_name lib v q = q\<lparr>Name := TrimSpace (invalidNameCharRE_replace lib (Sprintf_v lib v))\<rparr>"
  by (simp add: override_name_def)

lemma name_example:
  "Name (fst (md_col ascii_lib name_a_pct_b (Query md_named, row_start))) = ''a_b'' \<and>
   spec_sanitize ascii_lib ''a%b'' = ''ab''"
  by (simp add: model_defs lib_defs md_named_def name_a_pct_b_def spec_sanitize_def strip_invalid_def)

lemma name_batch:
  "Name (Query (fst (SetMetrics ascii_lib md_named [[name_a_pct_b]]))) = ''a_b''"
  by (simp add: model_defs lib_defs md_named_def name_a_pct_b_def)

text \<open>
  C7.  What lines 105-106 do, to compare with the two passes of the claim.  The second
  assignment is computed from the column's value, not from the result of the first, so
  the name is the value with every character outside \<^verbatim>\<open>[a-zA-Z0-9_]\<close> replaced by an
  underscore.  For the value \<open>a%b\<close> the code gives \<open>a_b\<close>, where two passes, the
  second on the output of the first, give \<open>ab\<close>.  The batch of the last line is the
  row of the one column \<open>name\<close>, which line 86 lets through.
\<close>

theorem name_override_one_pass:
  "override_name lib v q = q\<lparr>Name := TrimSpace (invalidNameCharRE_replace lib (Sprintf_v lib v))\<rparr> \<and>
   Name (fst (md_col ascii_lib name_a_pct_b (Query md_named, row_start))) = ''a_b'' \<and>
   spec_sanitize ascii_lib ''a%b'' = ''ab'' \<and>
   Name (Query (fst (SetMetrics ascii_lib md_named [[name_a_pct_b]]))) = ''a_b''"
  using override_name_eq[of lib v q] name_example name_batch by blast

end
